theory Spec2Isabelle
  imports Main
begin

section \<open>Enumerations used by Ktx2Reader.cpp\<close>

text \<open>
  The file abbreviates the scoped enumerations of Filament and BasisU as
  \<^verbatim>\<open>tif\<close> (Texture::InternalFormat), \<^verbatim>\<open>tct\<close> (Texture::CompressedType),
  \<^verbatim>\<open>tt\<close> (Texture::Type), \<^verbatim>\<open>tf\<close> (Texture::Format) and \<^verbatim>\<open>ttf\<close>
  (transcoder_texture_format). C++ scopes the enumerators; here the alias is a prefix of the
  constructor, since \<^verbatim>\<open>tif::EAC_R11\<close> and \<^verbatim>\<open>tct::EAC_R11\<close> are different values.
  The enumerations are declared in headers outside this file: every enumerator that
  Ktx2Reader.cpp names is a constructor, and \<open>tif_other n\<close> stands for any other enumerator
  of Texture::InternalFormat (the \<^verbatim>\<open>default:\<close> branch of each switch).
\<close>

datatype InternalFormat =
    tif_ETC2_EAC_SRGBA8 | tif_ETC2_EAC_RGBA8
  | tif_DXT1_SRGB | tif_DXT1_RGB
  | tif_DXT3_SRGBA | tif_DXT3_RGBA
  | tif_SRGB8_ALPHA8_ASTC_4x4 | tif_RGBA_ASTC_4x4
  | tif_EAC_R11 | tif_EAC_RG11
  | tif_SRGB8_A8 | tif_RGBA8 | tif_RGB565 | tif_RGBA4
  | tif_other nat

datatype CompressedType =
    tct_ETC2_EAC_RGBA8 | tct_ETC2_EAC_SRGBA8
  | tct_DXT1_RGB | tct_DXT1_SRGB
  | tct_DXT3_RGBA | tct_DXT3_SRGBA
  | tct_RGBA_ASTC_4x4 | tct_SRGB8_ALPHA8_ASTC_4x4
  | tct_EAC_R11 | tct_EAC_RG11

datatype PixelType = tt_UBYTE | tt_USHORT_565 | tt_USHORT

datatype PixelFormat = tf_RGBA | tf_RGB

datatype transcoder_texture_format =
    cTFETC2_RGBA | cTFBC1_RGB | cTFBC3_RGBA | cTFASTC_4x4_RGBA
  | cTFETC2_EAC_R11 | cTFETC2_EAC_RG11
  | cTFRGBA32 | cTFRGB565 | cTFRGBA4444
  | cTFETC1_RGB | cTFATC_RGB | cTFATC_RGBA | cTFFXT1_RGB
  | cTFPVRTC2_4_RGB | cTFPVRTC2_4_RGBA | cTFPVRTC1_4_RGB | cTFPVRTC1_4_RGBA
  | cTFBC4_R | cTFBC5_RG | cTFBC7_RGBA | cTFBGR565

datatype Transform = LINEAR | sRGB

section \<open>getFinalFormatInfo\<close>

text \<open>
  \<^verbatim>\<open>struct FinalFormatInfo\<close>. Every \<^verbatim>\<open>return {...}\<close> of getFinalFormatInfo is an
  aggregate initialisation that names only a prefix of the members (and writes \<^verbatim>\<open>{}\<close> for
  the compressed type of the uncompressed formats). A member left out is value-initialised:
  \<^verbatim>\<open>false\<close> for bool, and for an enumeration its zero value, whose enumerator is declared
  outside this file. Such an enumeration member is \<open>None\<close> here. The member
  \<^verbatim>\<open>basisFormat\<close> is the field \<open>info_basisFormat\<close>, the name \<open>basisFormat\<close> being
  the local variable of load below.
\<close>

record FinalFormatInfo =
  isSupported :: bool
  isCompressed :: bool
  transformFunction :: "Transform option"
  info_basisFormat :: "transcoder_texture_format option"
  compressedPixelDataType :: "CompressedType option"
  pixelDataType :: "PixelType option"
  pixelDataFormat :: "PixelFormat option"

definition compressedInfo ::
  "Transform \<Rightarrow> transcoder_texture_format \<Rightarrow> CompressedType \<Rightarrow> FinalFormatInfo" where
  "compressedInfo t b c =
     \<lparr>isSupported = True, isCompressed = True, transformFunction = Some t,
      info_basisFormat = Some b, compressedPixelDataType = Some c,
      pixelDataType = None, pixelDataFormat = None\<rparr>"

definition uncompressedInfo ::
  "Transform \<Rightarrow> transcoder_texture_format \<Rightarrow> PixelType \<Rightarrow> PixelFormat \<Rightarrow> FinalFormatInfo" where
  "uncompressedInfo t b ty fo =
     \<lparr>isSupported = True, isCompressed = False, transformFunction = Some t,
      info_basisFormat = Some b, compressedPixelDataType = None,
      pixelDataType = Some ty, pixelDataFormat = Some fo\<rparr>"

definition unsupportedInfo :: FinalFormatInfo where
  "unsupportedInfo =
     \<lparr>isSupported = False, isCompressed = False, transformFunction = None,
      info_basisFormat = None, compressedPixelDataType = None,
      pixelDataType = None, pixelDataFormat = None\<rparr>"

fun getFinalFormatInfo :: "InternalFormat \<Rightarrow> FinalFormatInfo" where
  "getFinalFormatInfo tif_ETC2_EAC_SRGBA8 = compressedInfo sRGB cTFETC2_RGBA tct_ETC2_EAC_RGBA8"
| "getFinalFormatInfo tif_ETC2_EAC_RGBA8 = compressedInfo LINEAR cTFETC2_RGBA tct_ETC2_EAC_SRGBA8"
| "getFinalFormatInfo tif_DXT1_SRGB = compressedInfo sRGB cTFBC1_RGB tct_DXT1_RGB"
| "getFinalFormatInfo tif_DXT1_RGB = compressedInfo LINEAR cTFBC1_RGB tct_DXT1_SRGB"
| "getFinalFormatInfo tif_DXT3_SRGBA = compressedInfo sRGB cTFBC3_RGBA tct_DXT3_RGBA"
| "getFinalFormatInfo tif_DXT3_RGBA = compressedInfo LINEAR cTFBC3_RGBA tct_DXT3_SRGBA"
| "getFinalFormatInfo tif_SRGB8_ALPHA8_ASTC_4x4 =
     compressedInfo sRGB cTFASTC_4x4_RGBA tct_RGBA_ASTC_4x4"
| "getFinalFormatInfo tif_RGBA_ASTC_4x4 =
     compressedInfo LINEAR cTFASTC_4x4_RGBA tct_SRGB8_ALPHA8_ASTC_4x4"
| "getFinalFormatInfo tif_EAC_R11 = compressedInfo LINEAR cTFETC2_EAC_R11 tct_EAC_R11"
| "getFinalFormatInfo tif_EAC_RG11 = compressedInfo LINEAR cTFETC2_EAC_RG11 tct_EAC_RG11"
| "getFinalFormatInfo tif_SRGB8_A8 = uncompressedInfo sRGB cTFRGBA32 tt_UBYTE tf_RGBA"
| "getFinalFormatInfo tif_RGBA8 = uncompressedInfo LINEAR cTFRGBA32 tt_UBYTE tf_RGBA"
| "getFinalFormatInfo tif_RGB565 = uncompressedInfo LINEAR cTFRGB565 tt_USHORT_565 tf_RGB"
| "getFinalFormatInfo tif_RGBA4 = uncompressedInfo LINEAR cTFRGBA4444 tt_USHORT tf_RGBA"
| "getFinalFormatInfo (tif_other n) = unsupportedInfo"

section \<open>convertFormat\<close>

text \<open>
  \<^verbatim>\<open>static bool convertFormat(fmt, dest, pTransform)\<close> returns false and writes nothing in
  the \<^verbatim>\<open>default:\<close> branch (\<open>None\<close>); otherwise it writes \<^verbatim>\<open>*dest\<close> and
  \<^verbatim>\<open>*pTransform\<close> and returns true (\<open>Some (dest, transform)\<close>).
\<close>

fun convertFormat :: "InternalFormat \<Rightarrow> (transcoder_texture_format \<times> Transform) option" where
  "convertFormat tif_ETC2_EAC_SRGBA8 = Some (cTFETC2_RGBA, sRGB)"
| "convertFormat tif_ETC2_EAC_RGBA8 = Some (cTFETC2_RGBA, LINEAR)"
| "convertFormat tif_DXT1_SRGB = Some (cTFBC1_RGB, sRGB)"
| "convertFormat tif_DXT1_RGB = Some (cTFBC1_RGB, LINEAR)"
| "convertFormat tif_DXT3_SRGBA = Some (cTFBC3_RGBA, sRGB)"
| "convertFormat tif_DXT3_RGBA = Some (cTFBC3_RGBA, LINEAR)"
| "convertFormat tif_SRGB8_ALPHA8_ASTC_4x4 = Some (cTFASTC_4x4_RGBA, sRGB)"
| "convertFormat tif_RGBA_ASTC_4x4 = Some (cTFASTC_4x4_RGBA, LINEAR)"
| "convertFormat tif_EAC_R11 = Some (cTFETC2_EAC_R11, LINEAR)"
| "convertFormat tif_EAC_RG11 = Some (cTFETC2_EAC_RG11, LINEAR)"
| "convertFormat tif_SRGB8_A8 = Some (cTFRGBA32, sRGB)"
| "convertFormat tif_RGBA8 = Some (cTFRGBA32, LINEAR)"
| "convertFormat tif_RGB565 = Some (cTFRGB565, LINEAR)"
| "convertFormat tif_RGBA4 = Some (cTFRGBA4444, LINEAR)"
| "convertFormat (tif_other n) = None"

section \<open>The reader: construction, requestFormat, unrequestFormat\<close>

text \<open>
  \<^verbatim>\<open>class Ktx2Reader\<close>: \<^verbatim>\<open>mEngine\<close> is used by this file only through
  \<^verbatim>\<open>Texture::isTextureFormatSupported(mEngine, format)\<close> and the texture builder, so the
  engine is the device's answer to that query. \<^verbatim>\<open>mTranscoder\<close> is the codec instance; what
  it answers after \<^verbatim>\<open>init(data, size)\<close> is the record \<open>ktx2_transcoder\<close> below, an
  argument of \<open>load\<close>.
\<close>

record Engine =
  isTextureFormatSupported :: "InternalFormat \<Rightarrow> bool"

record Ktx2Reader =
  mEngine :: Engine
  mQuiet :: bool
  mRequestedFormats :: "InternalFormat list"

definition Ktx2Reader_new :: "Engine \<Rightarrow> bool \<Rightarrow> Ktx2Reader" where
  "Ktx2Reader_new engine quiet =
     \<lparr>mEngine = engine, mQuiet = quiet, mRequestedFormats = []\<rparr>"

text \<open>The loop of requestFormat: \<^verbatim>\<open>for (fmt : mRequestedFormats) if (fmt == format) return false;\<close>\<close>

fun alreadyRequested :: "InternalFormat list \<Rightarrow> InternalFormat \<Rightarrow> bool" where
  "alreadyRequested [] format = False"
| "alreadyRequested (fmt # rest) format =
     (if fmt = format then True else alreadyRequested rest format)"

text \<open>requestFormat returns its bool together with the reader after the call.\<close>

definition requestFormat :: "Ktx2Reader \<Rightarrow> InternalFormat \<Rightarrow> bool \<times> Ktx2Reader" where
  "requestFormat r format =
     (case convertFormat format of
        None \<Rightarrow> (False, r)
      | Some dest \<Rightarrow>
          if alreadyRequested (mRequestedFormats r) format then (False, r)
          else (True, r\<lparr>mRequestedFormats := mRequestedFormats r @ [format]\<rparr>))"

text \<open>The loop of unrequestFormat erases the first element equal to \<open>format\<close> and returns.\<close>

fun eraseFirst :: "InternalFormat list \<Rightarrow> InternalFormat \<Rightarrow> InternalFormat list" where
  "eraseFirst [] format = []"
| "eraseFirst (fmt # rest) format =
     (if fmt = format then rest else fmt # eraseFirst rest format)"

definition unrequestFormat :: "Ktx2Reader \<Rightarrow> InternalFormat \<Rightarrow> Ktx2Reader" where
  "unrequestFormat r format =
     r\<lparr>mRequestedFormats := eraseFirst (mRequestedFormats r) format\<rparr>"

section \<open>Collaborators of load\<close>

text \<open>
  The codec instance \<^verbatim>\<open>mTranscoder\<close> (basist::ktx2_transcoder) as load sees it for the
  bytes it is given: one field per member function load calls, named as the member function.
  \<open>get_image_level_info c level\<close> is the call with layer 0 and face 0: \<open>None\<close> when it
  returns false, \<open>Some n\<close> when it returns true with \<^verbatim>\<open>info.m_total_blocks = n\<close>.
  \<open>transcode_image_level c level total_blocks fmt\<close> is the bool the transcoding call
  returns. The counts are \<^verbatim>\<open>uint32_t\<close> in the code; the only arithmetic on them is
  \<^verbatim>\<open>levelIndex++\<close> below \<^verbatim>\<open>get_levels()\<close>, which cannot wrap, so they are naturals.
\<close>

datatype basis_tex_format = cETC1S | cUASTC4x4

record ktx2_transcoder =
  init :: bool
  start_transcoding :: bool
  get_faces :: nat
  get_layers :: nat
  get_levels :: nat
  get_width :: nat
  get_height :: nat
  get_format :: basis_tex_format
  get_image_level_info :: "nat \<Rightarrow> nat option"
  transcode_image_level :: "nat \<Rightarrow> nat \<Rightarrow> transcoder_texture_format \<Rightarrow> bool"

text \<open>
  What the file takes from BasisU and from the platform, as parameters:
  \<^verbatim>\<open>basis_is_format_supported\<close>; \<open>qwords_per_block fmt\<close> for
  \<^verbatim>\<open>basisu::get_qwords_per_block(basis_get_basisu_texture_format(fmt))\<close>; the width of
  \<^verbatim>\<open>size_t\<close>; whether the file is compiled with \<^verbatim>\<open>NDEBUG\<close> defined, which decides what
  \<^verbatim>\<open>assert\<close> expands to; and the indeterminate contents of the three locals that the code
  can read without having written them: \<^verbatim>\<open>info.m_total_blocks\<close> after a failed
  get_image_level_info in the decode loop, \<^verbatim>\<open>basisFormat\<close> after a failed
  \<^verbatim>\<open>convertFormat(resolvedFormat, &basisFormat)\<close>, and \<^verbatim>\<open>cdatatype\<close> after a branch of
  the decode-pass switch that does not assign it.
\<close>

record platform =
  basis_is_format_supported :: "transcoder_texture_format \<Rightarrow> basis_tex_format \<Rightarrow> bool"
  qwords_per_block :: "transcoder_texture_format \<Rightarrow> nat"
  size_t_bits :: nat
  uninit_total_blocks :: "nat \<Rightarrow> nat"
  uninit_basisFormat :: transcoder_texture_format
  NDEBUG :: bool
  uninit_cdatatype :: CompressedType

text \<open>The texture that \<^verbatim>\<open>Texture::Builder()...build(mEngine)\<close> creates (the sampler is always SAMPLER_2D).\<close>

record Texture =
  tex_width :: nat
  tex_height :: nat
  tex_levels :: nat
  tex_format :: InternalFormat

section \<open>Effects and results of load\<close>

text \<open>
  load acts on the world through calls; the model returns them in order as a list of events.
  \<open>EvLog\<close> is one line streamed to \<^verbatim>\<open>utils::slog.e\<close> (the streamed items, before
  \<^verbatim>\<open>endl\<close>); \<open>EvCodecQuery\<close>, \<open>EvDeviceQuery\<close> and \<open>EvLevelInfo\<close> are the calls of
  basis_is_format_supported, Texture::isTextureFormatSupported and get_image_level_info;
  \<open>EvBuild\<close> is the texture builder's build; \<open>EvMalloc p n\<close> is \<^verbatim>\<open>malloc(n)\<close> returning
  the buffer \<open>p\<close>; \<open>EvTranscode level p total_blocks fmt\<close> is transcode_image_level writing
  into \<open>p\<close>; \<open>EvSetImage level p n tag\<close> is \<^verbatim>\<open>texture->setImage\<close> with the descriptor
  \<^verbatim>\<open>pbd(blocks, byteCount, cdatatype, byteCount, cb, nullptr)\<close>; \<open>EvFree p\<close> is
  \<^verbatim>\<open>free(p)\<close>.
\<close>

datatype log_item = Str string | Num nat

datatype event =
    EvLog "log_item list"
  | EvCodecQuery transcoder_texture_format basis_tex_format
  | EvDeviceQuery InternalFormat
  | EvLevelInfo nat
  | EvBuild Texture
  | EvMalloc nat nat
  | EvTranscode nat nat nat transcoder_texture_format
  | EvSetImage nat nat nat CompressedType
  | EvFree nat

text \<open>
  load returns a texture or \<^verbatim>\<open>nullptr\<close>. Each \<^verbatim>\<open>return nullptr\<close> is tagged with the name
  the specification gives to that exit; \<open>LevelMetadataError\<close> is in the specification's list,
  and no exit of the code carries it. \<open>AssertionFailed msg\<close> is \<^verbatim>\<open>assert(false && msg)\<close>
  stopping the program, which it does only when the file is compiled without
  \<^verbatim>\<open>NDEBUG\<close> (see \<open>load_assert\<close> below).
\<close>

datatype load_error =
    CodecInitError | TranscodeStartError | UnsupportedLayoutError
  | NoCompatibleFormatError | LevelMetadataError | TranscodeLevelError
  | AssertionFailed string

type_synonym load_result = "(load_error + Texture) \<times> event list"

definition emit :: "event list \<Rightarrow> 'a \<times> event list \<Rightarrow> 'a \<times> event list" where
  "emit evs res = (fst res, evs @ snd res)"

text \<open>\<^verbatim>\<open>if (!mQuiet) { utils::slog.e << msg << utils::io::endl; }\<close>\<close>

definition slogUnlessQuiet :: "Ktx2Reader \<Rightarrow> string \<Rightarrow> event list" where
  "slogUnlessQuiet r msg = (if \<not> mQuiet r then [EvLog [Str msg]] else [])"

section \<open>load: the negotiation pass\<close>

text \<open>
  The inner loop of the first pass, from \<open>levelIndex\<close> on. Its \<^verbatim>\<open>continue\<close> continues
  this inner loop: both outcomes of the lookup go on with the next level.
\<close>

function probeLevels :: "ktx2_transcoder \<Rightarrow> nat \<Rightarrow> event list" where
  "probeLevels c levelIndex =
     (if levelIndex < get_levels c then
        EvLevelInfo levelIndex #
          (case get_image_level_info c levelIndex of
             None \<Rightarrow> probeLevels c (levelIndex + 1)
           | Some info \<Rightarrow> probeLevels c (levelIndex + 1))
      else [])"
  by pat_completeness auto
termination
  by (relation "measure (\<lambda>(c, levelIndex). get_levels c - levelIndex)") auto

text \<open>
  The loop over \<^verbatim>\<open>mRequestedFormats\<close>: the result is \<open>Some resolvedFormat\<close> when
  \<^verbatim>\<open>found\<close> is true after the loop, \<open>None\<close> otherwise.
\<close>

fun negotiate ::
  "platform \<Rightarrow> Engine \<Rightarrow> ktx2_transcoder \<Rightarrow> Transform \<Rightarrow> InternalFormat list
     \<Rightarrow> InternalFormat option \<times> event list" where
  "negotiate P E c transform [] = (None, [])"
| "negotiate P E c transform (requestedFormat # rest) =
     (case convertFormat requestedFormat of
        None \<Rightarrow> negotiate P E c transform rest
      | Some (basisFormat, impliedTransform) \<Rightarrow>
          if impliedTransform \<noteq> transform then negotiate P E c transform rest
          else if \<not> basis_is_format_supported P basisFormat (get_format c) then
            emit [EvCodecQuery basisFormat (get_format c)] (negotiate P E c transform rest)
          else if \<not> isTextureFormatSupported E requestedFormat then
            emit [EvCodecQuery basisFormat (get_format c), EvDeviceQuery requestedFormat]
              (negotiate P E c transform rest)
          else
            (Some requestedFormat,
             [EvCodecQuery basisFormat (get_format c), EvDeviceQuery requestedFormat]
               @ probeLevels c 0))"

section \<open>load: the decode pass\<close>

text \<open>The switch over \<^verbatim>\<open>resolvedFormat\<close> that sets \<^verbatim>\<open>cdatatype\<close>, with its two assertions.\<close>

datatype switch_result = Compressed CompressedType | UncompressedTODO | Unreachable

fun load_switch :: "InternalFormat \<Rightarrow> switch_result" where
  "load_switch tif_ETC2_EAC_RGBA8 = Compressed tct_ETC2_EAC_RGBA8"
| "load_switch tif_ETC2_EAC_SRGBA8 = Compressed tct_ETC2_EAC_SRGBA8"
| "load_switch tif_DXT1_RGB = Compressed tct_DXT1_RGB"
| "load_switch tif_DXT1_SRGB = Compressed tct_DXT1_SRGB"
| "load_switch tif_DXT3_RGBA = Compressed tct_DXT3_RGBA"
| "load_switch tif_DXT3_SRGBA = Compressed tct_DXT3_SRGBA"
| "load_switch tif_RGBA_ASTC_4x4 = Compressed tct_RGBA_ASTC_4x4"
| "load_switch tif_SRGB8_ALPHA8_ASTC_4x4 = Compressed tct_SRGB8_ALPHA8_ASTC_4x4"
| "load_switch tif_EAC_R11 = Compressed tct_EAC_R11"
| "load_switch tif_EAC_RG11 = Compressed tct_EAC_RG11"
| "load_switch tif_SRGB8_A8 = UncompressedTODO"
| "load_switch tif_RGBA8 = UncompressedTODO"
| "load_switch tif_RGB565 = UncompressedTODO"
| "load_switch tif_RGBA4 = UncompressedTODO"
| "load_switch (tif_other n) = Unreachable"

text \<open>
  The loop over the mip levels, from \<open>levelIndex\<close> on. \<open>heap\<close> counts the buffers malloc has
  returned so far and names the next one (the code does not test malloc's result, and nothing
  is freed while load runs, so every call returns a buffer of its own). The result of get_image_level_info is not tested:
  when it is false, \<^verbatim>\<open>info\<close> has not been written and \<^verbatim>\<open>info.m_total_blocks\<close> is read
  as it is. \<^verbatim>\<open>sizeof(uint64_t) * qwordsPerBlock * info.m_total_blocks\<close> is computed in
  \<^verbatim>\<open>size_t\<close>. The message of the failing exit is streamed without a test of
  \<^verbatim>\<open>mQuiet\<close>.
\<close>

function decodeLevels ::
  "platform \<Rightarrow> ktx2_transcoder \<Rightarrow> transcoder_texture_format \<Rightarrow> CompressedType \<Rightarrow> Texture
     \<Rightarrow> nat \<Rightarrow> nat \<Rightarrow> load_result" where
  "decodeLevels P c basisFormat cdatatype texture levelIndex heap =
     (if levelIndex < get_levels c then
        (let total_blocks =
               (case get_image_level_info c levelIndex of
                  Some n \<Rightarrow> n
                | None \<Rightarrow> uninit_total_blocks P levelIndex);
             qwordsPerBlock = qwords_per_block P basisFormat;
             byteCount = (8 * qwordsPerBlock * total_blocks) mod 2 ^ size_t_bits P;
             blocks = heap;
             evs = [EvLevelInfo levelIndex, EvMalloc blocks byteCount,
                    EvTranscode levelIndex blocks total_blocks basisFormat]
         in if \<not> transcode_image_level c levelIndex total_blocks basisFormat then
              (Inl TranscodeLevelError,
               evs @ [EvLog [Str ''Failed to transcode level '', Num levelIndex]])
            else
              emit (evs @ [EvSetImage levelIndex blocks byteCount cdatatype])
                (decodeLevels P c basisFormat cdatatype texture (levelIndex + 1) (heap + 1)))
      else (Inr texture, []))"
  by pat_completeness auto
termination
  by (relation "measure (\<lambda>(P, c, b, d, t, levelIndex, heap). get_levels c - levelIndex)") auto

text \<open>
  \<^verbatim>\<open>assert(false && msg);\<close> followed by the rest of the function. Without
  \<^verbatim>\<open>NDEBUG\<close> the assertion stops the program. With \<^verbatim>\<open>NDEBUG\<close> the macro expands to
  nothing: neither branch of the switch that asserts has a \<^verbatim>\<open>return\<close> of its own, so
  execution leaves the switch and goes on with the rest.
\<close>

definition load_assert :: "platform \<Rightarrow> string \<Rightarrow> load_result \<Rightarrow> load_result" where
  "load_assert P msg rest = (if NDEBUG P then rest else (Inl (AssertionFailed msg), []))"

text \<open>
  load from the second convertFormat call (after a resolved format was found) to its end.
  The four uncompressed cases set \<^verbatim>\<open>isCompressed = false\<close> (a local that is never read
  afterwards), assert and \<^verbatim>\<open>break\<close>; the \<^verbatim>\<open>default:\<close> branch only asserts. Neither
  assigns \<^verbatim>\<open>cdatatype\<close>, which the loop over the levels then passes to the descriptor.
\<close>

definition load_decode :: "platform \<Rightarrow> ktx2_transcoder \<Rightarrow> InternalFormat \<Rightarrow> load_result" where
  "load_decode P c resolvedFormat =
     (let basisFormat =
            (case convertFormat resolvedFormat of
               Some (dest, t) \<Rightarrow> dest
             | None \<Rightarrow> uninit_basisFormat P);
          texture = \<lparr>tex_width = get_width c, tex_height = get_height c,
                     tex_levels = get_levels c, tex_format = resolvedFormat\<rparr>
      in emit [EvBuild texture]
           (case load_switch resolvedFormat of
              Compressed cdatatype \<Rightarrow> decodeLevels P c basisFormat cdatatype texture 0 0
            | UncompressedTODO \<Rightarrow>
                load_assert P ''TODO: Uncompressed types not yet implemented''
                  (decodeLevels P c basisFormat (uninit_cdatatype P) texture 0 0)
            | Unreachable \<Rightarrow>
                load_assert P
                  ''Unreachable due to the earlier pass through the requested formats.''
                  (decodeLevels P c basisFormat (uninit_cdatatype P) texture 0 0)))"

section \<open>load\<close>

definition load :: "platform \<Rightarrow> Ktx2Reader \<Rightarrow> ktx2_transcoder \<Rightarrow> Transform \<Rightarrow> load_result" where
  "load P r c transform =
     (if \<not> init c then
        (Inl CodecInitError, slogUnlessQuiet r ''BasisU transcoder init failed.'')
      else if \<not> start_transcoding c then
        (Inl TranscodeStartError, slogUnlessQuiet r ''BasisU start_transcoding failed.'')
      else if get_faces c = 6 then
        (Inl UnsupportedLayoutError, slogUnlessQuiet r ''Cubemaps are not yet supported.'')
      else if get_layers c > 1 then
        (Inl UnsupportedLayoutError, slogUnlessQuiet r ''Texture arrays are not yet supported.'')
      else
        (case negotiate P (mEngine r) c transform (mRequestedFormats r) of
           (None, evs) \<Rightarrow>
             (Inl NoCompatibleFormatError,
              evs @ slogUnlessQuiet r ''Unable to decode any of the requested formats.'')
         | (Some resolvedFormat, evs) \<Rightarrow> emit evs (load_decode P c resolvedFormat)))"

section \<open>Buffers after load\<close>

text \<open>\<^verbatim>\<open>Callback cb = [](void* buf, size_t, void* userdata) { free(buf); };\<close>\<close>

definition cb :: "nat \<Rightarrow> event list" where
  "cb buf = [EvFree buf]"

text \<open>
  Modelled from the spec: filament::Texture::setImage and the upload pipeline behind it are
  not in this file. The specification's contract for the consumer is that it calls the
  release callback of a descriptor exactly once, when it is done with the buffer, and that
  the callback is the only place where the buffer is freed. \<open>consumerReleases tr\<close> is what
  the consumer does for the descriptors handed over in \<open>tr\<close>.
\<close>

fun consumerReleases :: "event list \<Rightarrow> event list" where
  "consumerReleases [] = []"
| "consumerReleases (EvSetImage level p n tag # rest) = cb p @ consumerReleases rest"
| "consumerReleases (e # rest) = consumerReleases rest"

text \<open>Reading a list of events: the buffers malloc returned, those handed to setImage, those freed,
  the textures built, the lines logged, whether an event is one of the three queries, and every
  event that is not a logged line.\<close>

fun mallocOf :: "event \<Rightarrow> nat list" where
  "mallocOf (EvMalloc p n) = [p]"
| "mallocOf e = []"

fun setImageOf :: "event \<Rightarrow> nat list" where
  "setImageOf (EvSetImage level p n tag) = [p]"
| "setImageOf e = []"

fun freeOf :: "event \<Rightarrow> nat list" where
  "freeOf (EvFree p) = [p]"
| "freeOf e = []"

fun buildOf :: "event \<Rightarrow> Texture list" where
  "buildOf (EvBuild t) = [t]"
| "buildOf e = []"

fun logOf :: "event \<Rightarrow> log_item list list" where
  "logOf (EvLog line) = [line]"
| "logOf e = []"

fun isLog :: "event \<Rightarrow> bool" where
  "isLog (EvLog line) = True"
| "isLog e = False"

fun isQuery :: "event \<Rightarrow> bool" where
  "isQuery (EvCodecQuery b s) = True"
| "isQuery (EvDeviceQuery f) = True"
| "isQuery (EvLevelInfo level) = True"
| "isQuery e = False"

definition allocated :: "event list \<Rightarrow> nat list" where
  "allocated tr = concat (map mallocOf tr)"

definition handedOver :: "event list \<Rightarrow> nat list" where
  "handedOver tr = concat (map setImageOf tr)"

definition freed :: "event list \<Rightarrow> nat list" where
  "freed tr = concat (map freeOf tr)"

definition built :: "event list \<Rightarrow> Texture list" where
  "built tr = concat (map buildOf tr)"

definition logged :: "event list \<Rightarrow> log_item list list" where
  "logged tr = concat (map logOf tr)"

definition actions :: "event list \<Rightarrow> event list" where
  "actions tr = filter (\<lambda>e. \<not> isLog e) tr"

section \<open>The negotiation rule in the specification's words\<close>

text \<open>
  A requested format qualifies for a call when its implied transform equals the call's
  transform, the codec reports its codec format supported for the container's source format,
  and the device reports the format supported. The Resolved Format is the first format of the
  list, in insertion order, that qualifies: \<open>find (qualifies P E c transform) fs\<close>.
\<close>

definition qualifies ::
  "platform \<Rightarrow> Engine \<Rightarrow> ktx2_transcoder \<Rightarrow> Transform \<Rightarrow> InternalFormat \<Rightarrow> bool" where
  "qualifies P E c transform f =
     (case convertFormat f of
        None \<Rightarrow> False
      | Some (codecFormat, implied) \<Rightarrow>
          implied = transform \<and> basis_is_format_supported P codecFormat (get_format c)
          \<and> isTextureFormatSupported E f)"

section \<open>Concrete inputs\<close>

text \<open>
  A device and a codec that support every format, a 64-bit platform compiled without
  \<^verbatim>\<open>NDEBUG\<close> (\<open>platform64\<close>) and with it (\<open>platform64_NDEBUG\<close>), and a container with
  one face, no array layers (KTX2 writes layer count 0 for that) and \<open>n\<close> mip levels of 16
  blocks each, every one of which transcodes.
\<close>

definition anyDevice :: Engine where
  "anyDevice = \<lparr>isTextureFormatSupported = (\<lambda>f. True)\<rparr>"

definition platform64 :: platform where
  "platform64 =
     \<lparr>basis_is_format_supported = (\<lambda>f s. True),
      qwords_per_block = (\<lambda>f. if f = cTFBC1_RGB \<or> f = cTFETC2_EAC_R11 then 1 else 2),
      size_t_bits = 64,
      uninit_total_blocks = (\<lambda>level. 7),
      uninit_basisFormat = cTFETC1_RGB,
      NDEBUG = False,
      uninit_cdatatype = tct_EAC_R11\<rparr>"

definition platform64_NDEBUG :: platform where
  "platform64_NDEBUG = platform64\<lparr>NDEBUG := True\<rparr>"

definition container2D :: "nat \<Rightarrow> ktx2_transcoder" where
  "container2D n =
     \<lparr>init = True, start_transcoding = True, get_faces = 1, get_layers = 0,
      get_levels = n, get_width = 64, get_height = 64, get_format = cUASTC4x4,
      get_image_level_info = (\<lambda>level. Some 16),
      transcode_image_level = (\<lambda>level total_blocks fmt. True)\<rparr>"

text \<open>The same container, except that transcoding fails at level \<open>k\<close>.\<close>

definition levelFails :: "nat \<Rightarrow> nat \<Rightarrow> ktx2_transcoder" where
  "levelFails n k =
     (container2D n)\<lparr>transcode_image_level := (\<lambda>level total_blocks fmt. level \<noteq> k)\<rparr>"

text \<open>The same container, except that the per-level lookup fails at every level.\<close>

definition noLevelInfo :: "nat \<Rightarrow> ktx2_transcoder" where
  "noLevelInfo n = (container2D n)\<lparr>get_image_level_info := (\<lambda>level. None)\<rparr>"

definition reader :: "bool \<Rightarrow> InternalFormat list \<Rightarrow> Ktx2Reader" where
  "reader quiet fs = \<lparr>mEngine = anyDevice, mQuiet = quiet, mRequestedFormats = fs\<rparr>"

declare probeLevels.simps [simp del]
declare decodeLevels.simps [simp del]

section \<open>Lemmas\<close>

subsection \<open>Events and their accounting\<close>

lemma fst_emit [simp]: "fst (emit evs res) = fst res"
  by (simp add: emit_def)

lemma snd_emit [simp]: "snd (emit evs res) = evs @ snd res"
  by (simp add: emit_def)

lemma allocated_append [simp]: "allocated (a @ b) = allocated a @ allocated b"
  by (simp add: allocated_def)

lemma handedOver_append [simp]: "handedOver (a @ b) = handedOver a @ handedOver b"
  by (simp add: handedOver_def)

lemma built_append [simp]: "built (a @ b) = built a @ built b"
  by (simp add: built_def)

lemma logged_append [simp]: "logged (a @ b) = logged a @ logged b"
  by (simp add: logged_def)

lemma actions_append [simp]: "actions (a @ b) = actions a @ actions b"
  by (simp add: actions_def)

lemma queries_account:
  "list_all isQuery tr \<Longrightarrow>
     allocated tr = [] \<and> handedOver tr = [] \<and> built tr = [] \<and> logged tr = [] \<and> actions tr = tr"
proof (induction tr)
  case Nil
  then show ?case
    by (simp add: allocated_def handedOver_def built_def logged_def actions_def)
next
  case (Cons e tr)
  then show ?case
    by (cases e) (simp_all add: allocated_def handedOver_def built_def logged_def actions_def)
qed

lemma allocated_simps [simp]:
  "allocated [] = []" "allocated (e # tr) = mallocOf e @ allocated tr"
  by (simp_all add: allocated_def)

lemma handedOver_simps [simp]:
  "handedOver [] = []" "handedOver (e # tr) = setImageOf e @ handedOver tr"
  by (simp_all add: handedOver_def)

lemma freed_simps [simp]:
  "freed [] = []" "freed (e # tr) = freeOf e @ freed tr"
  by (simp_all add: freed_def)

lemma built_simps [simp]:
  "built [] = []" "built (e # tr) = buildOf e @ built tr"
  by (simp_all add: built_def)

lemma logged_simps [simp]:
  "logged [] = []" "logged (e # tr) = logOf e @ logged tr"
  by (simp_all add: logged_def)

lemma actions_simps [simp]:
  "actions [] = []" "actions (e # tr) = (if isLog e then actions tr else e # actions tr)"
  by (simp_all add: actions_def)

lemma slog_accounts [simp]:
  "built (slogUnlessQuiet r m) = []" "allocated (slogUnlessQuiet r m) = []"
  "handedOver (slogUnlessQuiet r m) = []" "actions (slogUnlessQuiet r m) = []"
  by (simp_all add: slogUnlessQuiet_def)

lemma consumerReleases_frees: "freed (consumerReleases tr) = handedOver tr"
proof (induction tr)
  case Nil
  then show ?case by simp
next
  case (Cons e tr)
  then show ?case by (cases e) (simp_all add: cb_def)
qed

subsection \<open>Registration\<close>

lemma alreadyRequested_iff: "alreadyRequested fs f \<longleftrightarrow> f \<in> set fs"
  by (induction fs) auto

lemma requestFormat_fails_iff:
  "\<not> fst (requestFormat r f) \<longleftrightarrow> convertFormat f = None \<or> f \<in> set (mRequestedFormats r)"
  by (auto simp: requestFormat_def alreadyRequested_iff split: option.splits)

lemma requestFormat_failed_same: "\<not> fst (requestFormat r f) \<Longrightarrow> snd (requestFormat r f) = r"
  by (auto simp: requestFormat_def split: option.splits if_splits)

lemma requestFormat_accepts:
  "convertFormat f \<noteq> None \<Longrightarrow> f \<notin> set (mRequestedFormats r) \<Longrightarrow>
     requestFormat r f = (True, r\<lparr>mRequestedFormats := mRequestedFormats r @ [f]\<rparr>)"
  by (auto simp: requestFormat_def alreadyRequested_iff)

lemma count_list_absent: "f \<notin> set fs \<Longrightarrow> count_list fs f = 0"
  by (induction fs) auto

subsection \<open>The format helpers\<close>

lemma supported_switch: "convertFormat f \<noteq> None \<Longrightarrow> load_switch f \<noteq> Unreachable"
  by (cases f) simp_all

lemma uncompressed_switch:
  "f = tif_SRGB8_A8 \<or> f = tif_RGBA8 \<or> f = tif_RGB565 \<or> f = tif_RGBA4 \<Longrightarrow>
     load_switch f = UncompressedTODO \<and> convertFormat f \<noteq> None"
  by auto

lemma formatInfo_agrees_on_codec_and_transform:
  "convertFormat f = Some (b, t) \<longleftrightarrow>
     isSupported (getFinalFormatInfo f) \<and> info_basisFormat (getFinalFormatInfo f) = Some b
     \<and> transformFunction (getFinalFormatInfo f) = Some t"
  by (cases f) (auto simp: compressedInfo_def uncompressedInfo_def unsupportedInfo_def)

lemma formatInfo_tag_differs_iff:
  "load_switch f = Compressed tag \<Longrightarrow>
     compressedPixelDataType (getFinalFormatInfo f) \<noteq> Some tag \<longleftrightarrow>
       f \<noteq> tif_EAC_R11 \<and> f \<noteq> tif_EAC_RG11"
  by (cases f) (auto simp: compressedInfo_def uncompressedInfo_def unsupportedInfo_def)

subsection \<open>The negotiation pass\<close>

lemma negotiate_fst: "fst (negotiate P E c t fs) = find (qualifies P E c t) fs"
  by (induction fs) (auto simp: qualifies_def split: option.splits)

lemma probeLevels_queries: "list_all isQuery (probeLevels c i)"
proof (induction c i rule: probeLevels.induct)
  case (1 c levelIndex)
  then show ?case
    by (subst probeLevels.simps) (auto split: option.splits)
qed

lemma negotiate_queries: "list_all isQuery (snd (negotiate P E c t fs))"
  by (induction fs) (auto simp: probeLevels_queries split: option.splits)

lemma negotiate_Some_supported:
  "fst (negotiate P E c t fs) = Some f \<Longrightarrow> \<exists>b. convertFormat f = Some (b, t)"
  by (induction fs) (auto split: option.splits if_splits)

lemma qualifies_level_info:
  "qualifies P E (c\<lparr>get_image_level_info := info\<rparr>) t = qualifies P E c t"
  by (rule ext) (simp add: qualifies_def split: option.splits)

subsection \<open>The decode pass\<close>

lemma decodeLevels_error:
  "fst (decodeLevels P c b d tx i h) = Inl e \<Longrightarrow> e = TranscodeLevelError"
proof (induction P c b d tx i h rule: decodeLevels.induct)
  case (1 P c basisFormat cdatatype texture levelIndex heap)
  then show ?case
    by (subst (asm) (2) decodeLevels.simps) (auto simp: Let_def split: if_splits)
qed

lemma decodeLevels_texture:
  "fst (decodeLevels P c b d tx i h) = Inr tx' \<Longrightarrow> tx' = tx"
proof (induction P c b d tx i h rule: decodeLevels.induct)
  case (1 P c basisFormat cdatatype texture levelIndex heap)
  then show ?case
    by (subst (asm) (2) decodeLevels.simps) (auto simp: Let_def split: if_splits)
qed

lemma decodeLevels_no_build: "built (snd (decodeLevels P c b d tx i h)) = []"
proof (induction P c b d tx i h rule: decodeLevels.induct)
  case (1 P c basisFormat cdatatype texture levelIndex heap)
  then show ?case
    by (subst decodeLevels.simps) (auto simp: Let_def built_def)
qed

lemma decodeLevels_done:
  "\<not> i < get_levels c \<Longrightarrow> decodeLevels P c b d tx i h = (Inr tx, [])"
  by (subst decodeLevels.simps) simp

lemma decodeLevels_step:
  assumes "i < get_levels c"
    and "n = (case get_image_level_info c i of Some k \<Rightarrow> k | None \<Rightarrow> uninit_total_blocks P i)"
    and "m = (8 * qwords_per_block P b * n) mod 2 ^ size_t_bits P"
  shows "decodeLevels P c b d tx i h =
     (if \<not> transcode_image_level c i n b then
        (Inl TranscodeLevelError,
         [EvLevelInfo i, EvMalloc h m, EvTranscode i h n b,
          EvLog [Str ''Failed to transcode level '', Num i]])
      else
        emit [EvLevelInfo i, EvMalloc h m, EvTranscode i h n b, EvSetImage i h m d]
          (decodeLevels P c b d tx (i + 1) (h + 1)))"
  using assms by (subst decodeLevels.simps) (simp add: Let_def)

lemma decodeLevels_success_buffers:
  "fst (decodeLevels P c b d tx i h) = Inr tx' \<Longrightarrow>
     allocated (snd (decodeLevels P c b d tx i h)) = [h ..< h + (get_levels c - i)]
     \<and> handedOver (snd (decodeLevels P c b d tx i h)) = [h ..< h + (get_levels c - i)]"
proof (induction "get_levels c - i" arbitrary: i h)
  case 0
  then show ?case
    by (simp add: decodeLevels_done)
next
  case (Suc k)
  then have less: "i < get_levels c" and k: "k = get_levels c - (i + 1)"
    by simp_all
  note step = decodeLevels_step [OF less refl refl, of P b d tx h]
  from Suc.prems have ok: "fst (decodeLevels P c b d tx (i + 1) (h + 1)) = Inr tx'"
    by (simp add: step split: if_splits)
  have upt: "[h ..< h + (get_levels c - i)] = h # [h + 1 ..< h + 1 + (get_levels c - (i + 1))]"
    using less by (simp add: upt_conv_Cons Suc_diff_Suc)
  from Suc.hyps(1) [OF k ok] Suc.prems show ?case
    by (simp add: step upt split: if_splits)
qed

lemma decodeLevels_failure_leaks:
  "fst (decodeLevels P c b d tx i h) = Inl e \<Longrightarrow>
     \<exists>p. allocated (snd (decodeLevels P c b d tx i h))
           = handedOver (snd (decodeLevels P c b d tx i h)) @ [p]"
proof (induction "get_levels c - i" arbitrary: i h)
  case 0
  then show ?case
    by (simp add: decodeLevels_done)
next
  case (Suc k)
  then have less: "i < get_levels c" and k: "k = get_levels c - (i + 1)"
    by simp_all
  note step = decodeLevels_step [OF less refl refl, of P b d tx h]
  show ?case
  proof (cases "transcode_image_level c i
      (case get_image_level_info c i of Some k \<Rightarrow> k | None \<Rightarrow> uninit_total_blocks P i) b")
    case False
    then show ?thesis
      by (simp add: step)
  next
    case True
    with Suc.prems have "fst (decodeLevels P c b d tx (i + 1) (h + 1)) = Inl e"
      by (simp add: step)
    from Suc.hyps(1) [OF k this] True show ?thesis
      by (simp add: step)
  qed
qed

lemma load_decode_built:
  "built (snd (load_decode P c f)) =
     [\<lparr>tex_width = get_width c, tex_height = get_height c, tex_levels = get_levels c,
       tex_format = f\<rparr>]"
  by (cases "load_switch f")
     (simp_all add: load_decode_def load_assert_def Let_def decodeLevels_no_build)

lemma load_decode_texture:
  "fst (load_decode P c f) = Inr tx \<Longrightarrow> tex_format tx = f"
  by (cases "load_switch f")
     (auto simp: load_decode_def load_assert_def Let_def dest: decodeLevels_texture
       split: if_splits)

subsection \<open>load as a whole\<close>

lemma load_passed_None:
  assumes "init c" "start_transcoding c" "get_faces c \<noteq> 6" "\<not> 1 < get_layers c"
    and "fst (negotiate P (mEngine r) c t (mRequestedFormats r)) = None"
  shows "load P r c t =
     (Inl NoCompatibleFormatError,
      snd (negotiate P (mEngine r) c t (mRequestedFormats r))
        @ slogUnlessQuiet r ''Unable to decode any of the requested formats.'')"
  using assms by (cases "negotiate P (mEngine r) c t (mRequestedFormats r)") (simp add: load_def)

lemma load_passed_Some:
  assumes "init c" "start_transcoding c" "get_faces c \<noteq> 6" "\<not> 1 < get_layers c"
    and "fst (negotiate P (mEngine r) c t (mRequestedFormats r)) = Some f"
  shows "load P r c t =
     emit (snd (negotiate P (mEngine r) c t (mRequestedFormats r))) (load_decode P c f)"
  using assms by (cases "negotiate P (mEngine r) c t (mRequestedFormats r)") (simp add: load_def)

lemma load_never_LevelMetadataError: "fst (load P r c t) \<noteq> Inl LevelMetadataError"
proof (cases "init c \<and> start_transcoding c \<and> get_faces c \<noteq> 6 \<and> \<not> 1 < get_layers c")
  case False
  then show ?thesis
    by (auto simp: load_def)
next
  case True
  then have gates: "init c" "start_transcoding c" "get_faces c \<noteq> 6" "\<not> 1 < get_layers c"
    by simp_all
  show ?thesis
  proof (cases "fst (negotiate P (mEngine r) c t (mRequestedFormats r))")
    case None
    from load_passed_None [OF gates None] show ?thesis
      by simp
  next
    case (Some g)
    have "fst (load_decode P c g) \<noteq> Inl LevelMetadataError"
      by (cases "load_switch g")
         (auto simp: load_decode_def load_assert_def Let_def dest: decodeLevels_error
           split: if_splits)
    with load_passed_Some [OF gates Some] show ?thesis
      by simp
  qed
qed

lemma load_success_buffers:
  assumes "fst (load P r c t) = Inr tx"
  shows "allocated (snd (load P r c t)) = [0 ..< get_levels c]
       \<and> handedOver (snd (load P r c t)) = [0 ..< get_levels c]
       \<and> freed (consumerReleases (snd (load P r c t))) = [0 ..< get_levels c]"
proof -
  let ?neg = "negotiate P (mEngine r) c t (mRequestedFormats r)"
  from assms have gates: "init c" "start_transcoding c" "get_faces c \<noteq> 6" "\<not> 1 < get_layers c"
    by (auto simp: load_def split: if_splits)
  have q: "list_all isQuery (snd ?neg)"
    by (rule negotiate_queries)
  show ?thesis
  proof (cases "fst ?neg")
    case None
    from load_passed_None [OF gates None] assms show ?thesis
      by simp
  next
    case (Some g)
    note ld = load_passed_Some [OF gates Some]
    with assms have ok: "fst (load_decode P c g) = Inr tx"
      by simp
    let ?tx = "\<lparr>tex_width = get_width c, tex_height = get_height c,
      tex_levels = get_levels c, tex_format = g\<rparr>"
    from ok obtain b d where dec: "load_decode P c g = emit [EvBuild ?tx] (decodeLevels P c b d ?tx 0 0)"
      by (cases "load_switch g")
         (auto simp: load_decode_def load_assert_def Let_def split: if_splits)
    with ok have "fst (decodeLevels P c b d ?tx 0 0) = Inr tx"
      by simp
    from decodeLevels_success_buffers [OF this] dec
    have "allocated (snd (load_decode P c g)) = [0 ..< get_levels c]
        \<and> handedOver (snd (load_decode P c g)) = [0 ..< get_levels c]"
      by simp
    with ld queries_account [OF q] show ?thesis
      by (simp add: consumerReleases_frees)
  qed
qed

lemma load_quiet_same_result:
  "fst (load P (r\<lparr>mQuiet := q\<rparr>) c t) = fst (load P r c t)
   \<and> actions (snd (load P (r\<lparr>mQuiet := q\<rparr>) c t)) = actions (snd (load P r c t))"
  by (auto simp: load_def slogUnlessQuiet_def split: prod.splits option.splits)

lemma uncompressed_stops_when_asserting:
  assumes "f = tif_SRGB8_A8 \<or> f = tif_RGBA8 \<or> f = tif_RGB565 \<or> f = tif_RGBA4"
  shows "convertFormat f \<noteq> None
       \<and> (f \<notin> set (mRequestedFormats rq) \<longrightarrow>
            requestFormat rq f = (True, rq\<lparr>mRequestedFormats := mRequestedFormats rq @ [f]\<rparr>))
       \<and> (\<not> NDEBUG P \<and> init c \<and> start_transcoding c \<and> get_faces c \<noteq> 6 \<and> \<not> 1 < get_layers c
            \<and> fst (negotiate P (mEngine r) c t (mRequestedFormats r)) = Some f \<longrightarrow>
            load P r c t =
              (Inl (AssertionFailed ''TODO: Uncompressed types not yet implemented''),
               snd (negotiate P (mEngine r) c t (mRequestedFormats r))
                 @ [EvBuild \<lparr>tex_width = get_width c, tex_height = get_height c,
                             tex_levels = get_levels c, tex_format = f\<rparr>])
            \<and> allocated (snd (load P r c t)) = []
            \<and> handedOver (snd (load P r c t)) = [])"
proof -
  let ?neg = "negotiate P (mEngine r) c t (mRequestedFormats r)"
  from assms have sw: "load_switch f = UncompressedTODO" and conv: "convertFormat f \<noteq> None"
    using uncompressed_switch by blast+
  have accept: "f \<notin> set (mRequestedFormats rq) \<longrightarrow>
      requestFormat rq f = (True, rq\<lparr>mRequestedFormats := mRequestedFormats rq @ [f]\<rparr>)"
    using conv by (simp add: requestFormat_accepts)
  have stop: "load P r c t =
         (Inl (AssertionFailed ''TODO: Uncompressed types not yet implemented''),
          snd ?neg @ [EvBuild \<lparr>tex_width = get_width c, tex_height = get_height c,
                             tex_levels = get_levels c, tex_format = f\<rparr>])
       \<and> allocated (snd (load P r c t)) = [] \<and> handedOver (snd (load P r c t)) = []"
    if dbg: "\<not> NDEBUG P"
      and gates: "init c" "start_transcoding c" "get_faces c \<noteq> 6" "\<not> 1 < get_layers c"
      and res: "fst ?neg = Some f"
  proof -
    have q: "list_all isQuery (snd ?neg)"
      by (rule negotiate_queries)
    from load_passed_Some [OF gates res] sw dbg queries_account [OF q] show ?thesis
      by (simp add: load_decode_def load_assert_def emit_def Let_def)
  qed
  from conv accept stop show ?thesis
    by blast
qed

lemmas example_defs = platform64_def platform64_NDEBUG_def anyDevice_def container2D_def reader_def levelFails_def
  noLevelInfo_def

section \<open>The claims\<close>

text \<open>
  C1. For a load call that passes codec init, transcode start and the layout checks, the
  format found by the negotiation loop is the first format of the Requested-Format List that
  qualifies (implied transform equal to the call's transform, codec format supported for the
  container's source format, format supported by the device). It is the format of the one
  texture load builds and of the texture load returns; when no format qualifies load fails
  with NoCompatibleFormatError; and whatever the per-level lookups answer during this pass,
  the format found is the same.
\<close>

theorem load_resolves_first_qualifying:
  assumes "init c" "start_transcoding c" "get_faces c \<noteq> 6" "\<not> 1 < get_layers c"
  shows "fst (negotiate P (mEngine r) c t (mRequestedFormats r))
           = find (qualifies P (mEngine r) c t) (mRequestedFormats r)
       \<and> map tex_format (built (snd (load P r c t)))
           = (case find (qualifies P (mEngine r) c t) (mRequestedFormats r) of
                None \<Rightarrow> [] | Some f \<Rightarrow> [f])
       \<and> (\<forall>tx. fst (load P r c t) = Inr tx \<longrightarrow>
             find (qualifies P (mEngine r) c t) (mRequestedFormats r) = Some (tex_format tx))
       \<and> (find (qualifies P (mEngine r) c t) (mRequestedFormats r) = None \<longrightarrow>
             fst (load P r c t) = Inl NoCompatibleFormatError)
       \<and> (\<forall>info. fst (negotiate P (mEngine r) (c\<lparr>get_image_level_info := info\<rparr>) t
                        (mRequestedFormats r))
                 = fst (negotiate P (mEngine r) c t (mRequestedFormats r)))"
proof -
  let ?neg = "negotiate P (mEngine r) c t (mRequestedFormats r)"
  let ?first = "find (qualifies P (mEngine r) c t) (mRequestedFormats r)"
  have first: "fst ?neg = ?first"
    by (rule negotiate_fst)
  have quiet: "built (snd ?neg) = []"
    using negotiate_queries [of P "mEngine r" c t "mRequestedFormats r"]
    by (simp add: queries_account)
  have probe: "\<forall>info. fst (negotiate P (mEngine r) (c\<lparr>get_image_level_info := info\<rparr>) t
                        (mRequestedFormats r)) = fst ?neg"
    by (simp add: negotiate_fst qualifies_level_info)
  show ?thesis
  proof (cases ?first)
    case None
    with first have "fst ?neg = None"
      by simp
    from load_passed_None [OF assms this] None first quiet probe show ?thesis
      by simp
  next
    case (Some f)
    with first have "fst ?neg = Some f"
      by simp
    from load_passed_Some [OF assms this] Some first quiet probe show ?thesis
      by (auto simp: load_decode_built dest: load_decode_texture)
  qed
qed

text \<open>C1 at a list whose first two formats are skipped (wrong transform, unsupported) and whose
  third qualifies.\<close>

theorem load_resolves_first_qualifying_witness:
  "init (container2D 1) \<and> start_transcoding (container2D 1)
   \<and> get_faces (container2D 1) \<noteq> 6 \<and> \<not> 1 < get_layers (container2D 1)
   \<and> fst (load platform64 (reader False [tif_DXT1_SRGB, tif_other 3, tif_RGBA_ASTC_4x4, tif_DXT1_RGB])
          (container2D 1) LINEAR)
     = Inr \<lparr>tex_width = 64, tex_height = 64, tex_levels = 1, tex_format = tif_RGBA_ASTC_4x4\<rparr>
   \<and> find (qualifies platform64 anyDevice (container2D 1) LINEAR)
         [tif_DXT1_SRGB, tif_other 3, tif_RGBA_ASTC_4x4, tif_DXT1_RGB] = Some tif_RGBA_ASTC_4x4"
  using load_resolves_first_qualifying [where c = "container2D 1" and P = platform64 and t = LINEAR
      and r = "reader False [tif_DXT1_SRGB, tif_other 3, tif_RGBA_ASTC_4x4, tif_DXT1_RGB]"]
  by (simp add: example_defs load_def load_decode_def qualifies_def emit_def Let_def
      probeLevels.simps decodeLevels.simps)


text \<open>
  C3, at a container of one level whose get_image_level_info fails: the decode pass goes on,
  allocates a buffer sized from the unwritten \<^verbatim>\<open>info.m_total_blocks\<close> (7 on this platform),
  transcodes into it, uploads it, and load returns the texture.
  (\<open>load_never_LevelMetadataError\<close> above: no exit of load is that failure.)
\<close>

theorem failed_level_info_not_a_gate:
  "get_image_level_info (noLevelInfo 1) 0 = None
   \<and> load platform64 (reader False [tif_ETC2_EAC_RGBA8]) (noLevelInfo 1) LINEAR
     = (Inr \<lparr>tex_width = 64, tex_height = 64, tex_levels = 1, tex_format = tif_ETC2_EAC_RGBA8\<rparr>,
        [EvCodecQuery cTFETC2_RGBA cUASTC4x4, EvDeviceQuery tif_ETC2_EAC_RGBA8, EvLevelInfo 0,
         EvBuild \<lparr>tex_width = 64, tex_height = 64, tex_levels = 1,
                  tex_format = tif_ETC2_EAC_RGBA8\<rparr>,
         EvLevelInfo 0, EvMalloc 0 112, EvTranscode 0 0 7 cTFETC2_RGBA,
         EvSetImage 0 0 112 tct_ETC2_EAC_RGBA8])"
  by (simp add: example_defs load_def load_decode_def emit_def Let_def
      probeLevels.simps decodeLevels.simps)

text \<open>
  C4 as stated, at a container that declares 6 faces and whose start_transcoding fails: load
  fails at the earlier exit, with TranscodeStartError.
\<close>

theorem layout_rejection_counterexample:
  "get_faces ((container2D 1)\<lparr>get_faces := 6, start_transcoding := False\<rparr>) = 6
   \<and> fst (load platform64 (reader False [tif_ETC2_EAC_RGBA8])
            ((container2D 1)\<lparr>get_faces := 6, start_transcoding := False\<rparr>) LINEAR)
       = Inl TranscodeStartError
   \<and> fst (load platform64 (reader False [tif_ETC2_EAC_RGBA8])
            ((container2D 1)\<lparr>get_faces := 6, start_transcoding := False\<rparr>) LINEAR)
       \<noteq> Inl UnsupportedLayoutError"
  by (simp add: example_defs load_def)

text \<open>
  C4, amended: for every load call that passes codec init and transcode start and whose
  container declares 6 faces or more than 1 layer, load fails with UnsupportedLayoutError;
  nothing but the diagnostic line has happened (no query of the negotiation, no texture built,
  no buffer allocated); and the outcome is the same for every Requested-Format List, device,
  platform and transform.
\<close>

theorem layout_rejected_after_start:
  assumes "init c" "start_transcoding c" "get_faces c = 6 \<or> 1 < get_layers c"
  shows "fst (load P r c t) = Inl UnsupportedLayoutError
       \<and> actions (snd (load P r c t)) = []
       \<and> load P' (r\<lparr>mRequestedFormats := fs, mEngine := E\<rparr>) c t' = load P r c t"
  using assms by (auto simp: load_def slogUnlessQuiet_def)

text \<open>C4 (amended) at a container that declares 2 layers.\<close>

theorem layout_rejected_after_start_witness:
  "init ((container2D 1)\<lparr>get_layers := 2\<rparr>)
   \<and> start_transcoding ((container2D 1)\<lparr>get_layers := 2\<rparr>)
   \<and> 1 < get_layers ((container2D 1)\<lparr>get_layers := 2\<rparr>)
   \<and> load platform64 (reader False [tif_ETC2_EAC_RGBA8]) ((container2D 1)\<lparr>get_layers := 2\<rparr>) LINEAR
     = (Inl UnsupportedLayoutError, [EvLog [Str ''Texture arrays are not yet supported.'']])
   \<and> load platform64 (reader False []) ((container2D 1)\<lparr>get_layers := 2\<rparr>) sRGB
     = load platform64 (reader False [tif_ETC2_EAC_RGBA8]) ((container2D 1)\<lparr>get_layers := 2\<rparr>) LINEAR"
  using layout_rejected_after_start [where c = "(container2D 1)\<lparr>get_layers := 2\<rparr>" and P = platform64
      and r = "reader False [tif_ETC2_EAC_RGBA8]" and t = LINEAR and P' = platform64
      and fs = "[]" and E = anyDevice and t' = sRGB]
  by (simp add: example_defs load_def slogUnlessQuiet_def)

text \<open>
  C5. When a load call reaches the negotiation and the negotiation finds no format (in
  particular when the Requested-Format List is empty), load fails with
  NoCompatibleFormatError; no texture has been built, no buffer allocated, nothing handed to
  setImage, and apart from the diagnostic line load has only made queries.
\<close>

theorem no_format_fails_before_build:
  assumes "init c" "start_transcoding c" "get_faces c \<noteq> 6" "\<not> 1 < get_layers c"
    and "mRequestedFormats r = []
         \<or> fst (negotiate P (mEngine r) c t (mRequestedFormats r)) = None"
  shows "fst (load P r c t) = Inl NoCompatibleFormatError
       \<and> built (snd (load P r c t)) = []
       \<and> allocated (snd (load P r c t)) = []
       \<and> handedOver (snd (load P r c t)) = []
       \<and> list_all isQuery (actions (snd (load P r c t)))"
proof -
  let ?neg = "negotiate P (mEngine r) c t (mRequestedFormats r)"
  from assms(5) have none: "fst ?neg = None"
    by auto
  have q: "list_all isQuery (snd ?neg)"
    by (rule negotiate_queries)
  from load_passed_None [OF assms(1-4) none] q queries_account [OF q] show ?thesis
    by simp
qed

text \<open>C5 at a list with one format of the wrong transform and one unsupported format.\<close>

theorem no_format_fails_before_build_witness:
  "init (container2D 4) \<and> start_transcoding (container2D 4)
   \<and> get_faces (container2D 4) \<noteq> 6 \<and> \<not> 1 < get_layers (container2D 4)
   \<and> fst (negotiate platform64 anyDevice (container2D 4) LINEAR [tif_DXT1_SRGB, tif_other 3])
     = None
   \<and> fst (load platform64 (reader False [tif_DXT1_SRGB, tif_other 3]) (container2D 4) LINEAR)
     = Inl NoCompatibleFormatError
   \<and> snd (load platform64 (reader False [tif_DXT1_SRGB, tif_other 3]) (container2D 4) LINEAR)
     = [EvLog [Str ''Unable to decode any of the requested formats.'']]
   \<and> allocated (snd (load platform64 (reader False [tif_DXT1_SRGB, tif_other 3]) (container2D 4) LINEAR)) = []"
  using no_format_fails_before_build [where c = "container2D 4" and P = platform64 and t = LINEAR
      and r = "reader False [tif_DXT1_SRGB, tif_other 3]"]
  by (simp add: example_defs load_def slogUnlessQuiet_def)

text \<open>
  C6, at a reader constructed quiet and a container whose level 0 fails to transcode: the line
  "Failed to transcode level 0" is written to the log. (\<open>load_quiet_same_result\<close> above is
  the second half of C6: the flag changes neither the result nor any action of load.)
\<close>

theorem quiet_load_logs_transcode_failure:
  "mQuiet (reader True [tif_ETC2_EAC_RGBA8])
   \<and> logged (snd (load platform64 (reader True [tif_ETC2_EAC_RGBA8]) (levelFails 1 0) LINEAR))
     = [[Str ''Failed to transcode level '', Num 0]]"
  by (simp add: example_defs load_def load_decode_def emit_def Let_def
      probeLevels.simps decodeLevels.simps)

text \<open>
  C7 as stated, at a format outside the compatibility table on a new reader: both calls
  return false and the list holds no occurrence of the format; and at a format that is
  already in the list: the first call returns false.
\<close>

theorem requestFormat_twice_counterexample:
  "\<not> fst (requestFormat (Ktx2Reader_new anyDevice False) (tif_other 0))
   \<and> \<not> fst (requestFormat (snd (requestFormat (Ktx2Reader_new anyDevice False) (tif_other 0)))
           (tif_other 0))
   \<and> count_list (mRequestedFormats
        (snd (requestFormat (snd (requestFormat (Ktx2Reader_new anyDevice False) (tif_other 0)))
           (tif_other 0)))) (tif_other 0) = 0
   \<and> \<not> fst (requestFormat (reader False [tif_RGBA8]) tif_RGBA8)"
  by (simp add: requestFormat_def Ktx2Reader_new_def reader_def)

text \<open>
  C7, amended: for every format f that the compatibility lookup supports and that is not yet
  in the Requested-Format List, calling requestFormat(f) twice in succession returns true then
  false, and afterwards the list holds exactly one occurrence of f; and every requestFormat
  call that returns false leaves the reader unchanged.
\<close>

theorem requestFormat_twice:
  assumes "convertFormat f \<noteq> None" "f \<notin> set (mRequestedFormats r)"
  shows "fst (requestFormat r f)
       \<and> \<not> fst (requestFormat (snd (requestFormat r f)) f)
       \<and> count_list (mRequestedFormats (snd (requestFormat (snd (requestFormat r f)) f))) f = 1
       \<and> (\<forall>r' g. \<not> fst (requestFormat r' g) \<longrightarrow> snd (requestFormat r' g) = r')"
proof -
  let ?r1 = "r\<lparr>mRequestedFormats := mRequestedFormats r @ [f]\<rparr>"
  have first: "requestFormat r f = (True, ?r1)"
    using assms by (rule requestFormat_accepts)
  have "f \<in> set (mRequestedFormats ?r1)"
    by simp
  then have second: "\<not> fst (requestFormat ?r1 f)"
    by (simp add: requestFormat_fails_iff)
  then have same: "snd (requestFormat ?r1 f) = ?r1"
    by (rule requestFormat_failed_same)
  have "count_list (mRequestedFormats ?r1) f = 1"
    using assms(2) by (simp add: count_list_absent)
  with first second same show ?thesis
    by (simp add: requestFormat_failed_same)
qed

text \<open>C7 (amended) at RGBA8 on a reader that holds DXT1_RGB.\<close>

theorem requestFormat_twice_witness:
  "convertFormat tif_RGBA8 \<noteq> None
   \<and> tif_RGBA8 \<notin> set (mRequestedFormats (reader False [tif_DXT1_RGB]))
   \<and> fst (requestFormat (reader False [tif_DXT1_RGB]) tif_RGBA8)
   \<and> requestFormat (snd (requestFormat (reader False [tif_DXT1_RGB]) tif_RGBA8)) tif_RGBA8
       = (False, reader False [tif_DXT1_RGB, tif_RGBA8])"
  using requestFormat_twice [of tif_RGBA8 "reader False [tif_DXT1_RGB]"]
  by (simp add: reader_def requestFormat_def)

text \<open>
  C8, at ETC2_EAC_SRGBA8 and ETC2_EAC_RGBA8: getFinalFormatInfo gives each of them the
  compressed-type tag of the other, while the switch of the decode pass gives each its own.
  (\<open>formatInfo_agrees_on_codec_and_transform\<close> and \<open>formatInfo_tag_differs_iff\<close> above: the
  helpers agree on codec format and transform, and the tags differ for every compressed
  format but EAC_R11 and EAC_RG11.)
\<close>

theorem getFinalFormatInfo_tags_swapped:
  "compressedPixelDataType (getFinalFormatInfo tif_ETC2_EAC_SRGBA8) = Some tct_ETC2_EAC_RGBA8
   \<and> load_switch tif_ETC2_EAC_SRGBA8 = Compressed tct_ETC2_EAC_SRGBA8
   \<and> compressedPixelDataType (getFinalFormatInfo tif_ETC2_EAC_RGBA8) = Some tct_ETC2_EAC_SRGBA8
   \<and> load_switch tif_ETC2_EAC_RGBA8 = Compressed tct_ETC2_EAC_RGBA8"
  by (simp add: compressedInfo_def)

text \<open>
  C9, at a file compiled with \<^verbatim>\<open>NDEBUG\<close>, RGB565 requested after a format of the other
  transform, and a container of two levels: requestFormat accepts RGB565 and the negotiation
  resolves it, but the assertion "TODO: Uncompressed types not yet implemented" is compiled
  out and nothing else leaves the function: load goes on into the loop over the levels,
  allocates and transcodes both levels, hands both to setImage with the unwritten
  \<^verbatim>\<open>cdatatype\<close> as their compressed type, and returns the texture.
  (\<open>uncompressed_stops_when_asserting\<close> above: compiled without \<^verbatim>\<open>NDEBUG\<close>, load does stop
  at the assertion, with the texture built and nothing allocated or handed over.)
\<close>

theorem uncompressed_uploads_under_NDEBUG:
  "requestFormat (reader False [tif_DXT1_SRGB]) tif_RGB565
     = (True, reader False [tif_DXT1_SRGB, tif_RGB565])
   \<and> NDEBUG platform64_NDEBUG
   \<and> load_switch tif_RGB565 = UncompressedTODO
   \<and> load platform64_NDEBUG (reader False [tif_DXT1_SRGB, tif_RGB565]) (container2D 2) LINEAR
     = (Inr \<lparr>tex_width = 64, tex_height = 64, tex_levels = 2, tex_format = tif_RGB565\<rparr>,
        [EvCodecQuery cTFRGB565 cUASTC4x4, EvDeviceQuery tif_RGB565, EvLevelInfo 0, EvLevelInfo 1,
         EvBuild \<lparr>tex_width = 64, tex_height = 64, tex_levels = 2, tex_format = tif_RGB565\<rparr>,
         EvLevelInfo 0, EvMalloc 0 256, EvTranscode 0 0 16 cTFRGB565,
         EvSetImage 0 0 256 (uninit_cdatatype platform64_NDEBUG),
         EvLevelInfo 1, EvMalloc 1 256, EvTranscode 1 1 16 cTFRGB565,
         EvSetImage 1 1 256 (uninit_cdatatype platform64_NDEBUG)])"
  by (simp add: example_defs requestFormat_def load_def load_decode_def load_assert_def
      emit_def Let_def probeLevels.simps decodeLevels.simps)

text \<open>
  C10. No load call ends at the assertion of the \<^verbatim>\<open>default:\<close> branch of the decode-pass
  switch, and a format found by the negotiation is always one of the fourteen enumerators the
  switch handles.
\<close>

theorem switch_default_unreachable:
  "fst (load P r c t)
     \<noteq> Inl (AssertionFailed ''Unreachable due to the earlier pass through the requested formats.'')
   \<and> (fst (negotiate P E c t fs) = Some f \<longrightarrow> (\<exists>tag. load_switch f = Compressed tag) \<or> load_switch f = UncompressedTODO)"
proof -
  let ?msg = "''Unreachable due to the earlier pass through the requested formats.''"
  let ?neg = "negotiate P (mEngine r) c t (mRequestedFormats r)"
  have sw: "load_switch g \<noteq> Unreachable" if "fst (negotiate P E' c t gs) = Some g" for g E' gs
    using negotiate_Some_supported [OF that] supported_switch [of g] by auto
  have dec: "fst (load_decode P c g) \<noteq> Inl (AssertionFailed ?msg)" if "load_switch g \<noteq> Unreachable" for g
    using that
    by (cases "load_switch g")
       (auto simp: load_decode_def load_assert_def Let_def dest: decodeLevels_error
         split: if_splits)
  have "fst (load P r c t) \<noteq> Inl (AssertionFailed ?msg)"
  proof (cases "init c \<and> start_transcoding c \<and> get_faces c \<noteq> 6 \<and> \<not> 1 < get_layers c")
    case False
    then show ?thesis
      by (auto simp: load_def)
  next
    case True
    then have gates: "init c" "start_transcoding c" "get_faces c \<noteq> 6" "\<not> 1 < get_layers c"
      by simp_all
    show ?thesis
    proof (cases "fst ?neg")
      case None
      from load_passed_None [OF gates None] show ?thesis
        by simp
    next
      case (Some g)
      from load_passed_Some [OF gates Some] dec [OF sw [OF Some]] show ?thesis
        by simp
    qed
  qed
  moreover have "fst (negotiate P E c t fs) = Some f \<longrightarrow>
      (\<exists>tag. load_switch f = Compressed tag) \<or> load_switch f = UncompressedTODO"
    using sw [of E fs f] by (cases "load_switch f") auto
  ultimately show ?thesis
    by blast
qed

text \<open>C10 at a list that holds an enumerator outside the table before DXT3_SRGBA.\<close>

theorem switch_default_unreachable_witness:
  "fst (negotiate platform64 anyDevice (container2D 1) sRGB [tif_other 7, tif_DXT3_SRGBA])
     = Some tif_DXT3_SRGBA
   \<and> load_switch tif_DXT3_SRGBA = Compressed tct_DXT3_SRGBA
   \<and> fst (load platform64 (reader False [tif_other 7, tif_DXT3_SRGBA]) (container2D 1) sRGB)
     \<noteq> Inl (AssertionFailed ''Unreachable due to the earlier pass through the requested formats.'')"
  using switch_default_unreachable [where P = platform64 and r = "reader False [tif_other 7, tif_DXT3_SRGBA]"
      and c = "container2D 1" and t = sRGB and E = anyDevice
      and fs = "[tif_other 7, tif_DXT3_SRGBA]" and f = tif_DXT3_SRGBA]
  by (simp add: example_defs emit_def)

end
